theory Spec2Isabelle
  imports Complex_Main "HOL-Library.Sublist"
begin

section \<open>Python values\<close>

text \<open>
  A value as \<open>json.load\<close> or a backend delivers it: \<open>None\<close>, a boolean, an integer, a
  float, a string, a list (JSON array) or a dict (JSON object). The program renders
  such a value with \<open>str\<close>, tests it against \<open>None\<close> and \<open>str\<close>, uses it as a dictionary
  key and hands it on, and nothing else; so a float, a list and a dict are given by
  their kind and their \<open>str\<close> text.
\<close>

datatype pyval =
    PNone | PBool bool | PInt int | PFloat string | PStr string | PList string | PDict string

fun str_nat :: "nat \<Rightarrow> string" where
  "str_nat n =
     (if n < 10 then [char_of (48 + n)] else str_nat (n div 10) @ [char_of (48 + n mod 10)])"

definition str_int :: "int \<Rightarrow> string" where
  "str_int i = (if i < 0 then CHR ''-'' # str_nat (nat (- i)) else str_nat (nat i))"

text \<open>\<open>str(v)\<close>, as an f-string applies it to an interpolated value.\<close>

fun py_str :: "pyval \<Rightarrow> string" where
  "py_str PNone = ''None''"
| "py_str (PBool b) = (if b then ''True'' else ''False'')"
| "py_str (PInt i) = str_int i"
| "py_str (PFloat s) = s"
| "py_str (PStr s) = s"
| "py_str (PList s) = s"
| "py_str (PDict s) = s"

text \<open>
  The type name of a value that Python cannot hash. Such a value cannot be a dictionary
  key: a lookup with it raises \<open>TypeError\<close>.
\<close>

fun unhashable :: "pyval \<Rightarrow> string option" where
  "unhashable (PList s) = Some ''list''"
| "unhashable (PDict s) = Some ''dict''"
| "unhashable v = None"

text \<open>\<open>sep.join(xs)\<close>\<close>

fun join :: "string \<Rightarrow> string list \<Rightarrow> string" where
  "join sep [] = []"
| "join sep [x] = x"
| "join sep (x # y # ys) = x @ sep @ join sep (y # ys)"

text \<open>\<open>s.split(', ')\<close>; the first argument accumulates the current item, reversed.\<close>

fun split_comma_space :: "string \<Rightarrow> string \<Rightarrow> string list" where
  "split_comma_space acc [] = [rev acc]"
| "split_comma_space acc [c] = [rev (c # acc)]"
| "split_comma_space acc (c # d # s) =
     (if c = CHR '','' \<and> d = CHR '' '' then rev acc # split_comma_space [] s
      else split_comma_space (c # acc) (d # s))"


section \<open>llm\_client.py: the model gateway\<close>

text \<open>
  The content of a message is whatever a backend returned or an agent wrote: a string as
  a rule, but a backend may deliver \<open>None\<close> or any other JSON value.
\<close>

record message =
  role :: string
  content :: pyval

text \<open>The entries of one model's configuration that \<open>generate\<close> reads.\<close>

record model_config =
  cfg_model_name :: string
  cfg_temperature :: real
  cfg_max_tokens :: int

text \<open>
  The client object of the OpenAI library. \<open>OpenAI(api_key=..., base_url=...)\<close>, as
  \<open>_initialize_clients\<close> calls it, passes no \<open>max_retries\<close>: the client keeps the
  library's default of two retries.
\<close>

record openai_client =
  api_key :: string
  base_url :: "string option"
  max_retries :: nat

definition OpenAI_client :: "string \<Rightarrow> string option \<Rightarrow> openai_client" where
  "OpenAI_client key url = \<lparr>api_key = key, base_url = url, max_retries = 2\<rparr>"

datatype client_info =
    OpenAI_compatible openai_client model_config
  | OpenAI openai_client model_config
  | Ollama string model_config

fun config :: "client_info \<Rightarrow> model_config" where
  "config (OpenAI_compatible c cfg) = cfg"
| "config (OpenAI c cfg) = cfg"
| "config (Ollama url cfg) = cfg"

record llm_client =
  clients :: "string \<rightharpoonup> client_info"

subsection \<open>The two transports\<close>

text \<open>Keyword arguments of \<open>client.chat.completions.create\<close>.\<close>

record create_kwargs =
  kw_model :: string
  kw_messages :: "message list"
  kw_temperature :: real
  kw_max_tokens :: int

text \<open>The JSON body posted to \<open>{base_url}/api/chat\<close>.\<close>

record ollama_options =
  opt_temperature :: real
  opt_num_predict :: int

record ollama_json =
  js_model :: string
  js_messages :: "message list"
  js_stream :: bool
  js_options :: ollama_options

datatype transport_call =
    Chat_completions_create openai_client create_kwargs
  | Requests_post string ollama_json

text \<open>
  A chat completion is read through \<open>response.choices[0].message.content\<close>, so it is
  modelled by the list of its choices' contents.
\<close>

record chat_completion =
  choices :: "pyval list"

text \<open>
  A parsed JSON value is read only through \<open>.get(key, default)\<close> with one key: it is
  either no object (it carries its Python type name, as the \<open>AttributeError\<close> text
  shows it) or an object, given by the value under that key (\<open>None\<close>: key absent).
\<close>

datatype 'a json = Non_object string | Object "'a option"

text \<open>\<open>str(e)\<close> of the \<open>AttributeError\<close> that \<open>.get\<close> raises on a value of type \<open>tn\<close>.\<close>

definition no_attribute_get :: "string \<Rightarrow> string" where
  "no_attribute_get tn =
     [CHR 0x27] @ tn @ [CHR 0x27] @ '' object has no attribute '' @ [CHR 0x27] @ ''get'' @ [CHR 0x27]"

fun json_get :: "'a json \<Rightarrow> 'a \<Rightarrow> string + 'a" where
  "json_get (Object v) d = Inr (case v of None \<Rightarrow> d | Some x \<Rightarrow> x)"
| "json_get (Non_object tn) d = Inl (no_attribute_get tn)"

text \<open>
  An HTTP response is modelled by what its two methods do: \<open>raise_for_status()\<close> raises
  (\<open>Some\<close> text of the \<open>HTTPError\<close>) or not, and \<open>json()\<close> raises (\<open>Inl\<close> text of the
  decoding error) or returns the parsed body: as a rule an object whose \<open>message\<close> is an
  object whose \<open>content\<close> is some JSON value.
\<close>

record http_response =
  raise_for_status :: "string option"
  resp_json :: "string + (pyval json) json"

text \<open>
  One HTTP attempt of the OpenAI client: it completes, or it ends with an error that the
  library tries again (a connection error or timeout, or status 408, 409, 429 or 5xx),
  or with an error that the library raises at once (any other error status). The
  string is \<open>str(e)\<close> of the exception the library would raise for it.
\<close>

datatype attempt = Completed chat_completion | Retryable string | Fatal string

text \<open>
  The remote side. \<open>openai_http n k\<close> answers attempt \<open>k\<close> of the client call made after
  \<open>n\<close> earlier transport calls; \<open>requests_post n\<close> answers the post made after \<open>n\<close>
  earlier transport calls: it raises (\<open>Inl\<close> of \<open>str(e)\<close>) or returns a response. The
  indices let a backend answer the same request differently each time.
\<close>

record remote =
  openai_http :: "nat \<Rightarrow> nat \<Rightarrow> openai_client \<Rightarrow> create_kwargs \<Rightarrow> attempt"
  requests_post :: "nat \<Rightarrow> string \<Rightarrow> ollama_json \<Rightarrow> string + http_response"

text \<open>
  \<open>client.chat.completions.create\<close> belongs to the OpenAI library, not to the
  repository; it is modelled by what the library documents. Attempts are made until one
  completes or ends with an error that is not tried again, or until the retries are used
  up; then the error of the last attempt is raised. The result comes with the number
  of HTTP attempts made; \<open>k\<close> counts the attempts made before.
\<close>

fun create_attempts ::
  "remote \<Rightarrow> nat \<Rightarrow> openai_client \<Rightarrow> create_kwargs \<Rightarrow> nat \<Rightarrow> nat
    \<Rightarrow> (string + chat_completion) \<times> nat" where
  "create_attempts rem n cl kw k 0 =
     (case openai_http rem n k cl kw of
        Completed response \<Rightarrow> (Inr response, Suc k)
      | Retryable e \<Rightarrow> (Inl e, Suc k)
      | Fatal e \<Rightarrow> (Inl e, Suc k))"
| "create_attempts rem n cl kw k (Suc retries) =
     (case openai_http rem n k cl kw of
        Completed response \<Rightarrow> (Inr response, Suc k)
      | Retryable e \<Rightarrow> create_attempts rem n cl kw (Suc k) retries
      | Fatal e \<Rightarrow> (Inl e, Suc k))"

definition chat_completions_create ::
  "remote \<Rightarrow> nat \<Rightarrow> openai_client \<Rightarrow> create_kwargs \<Rightarrow> string + chat_completion" where
  "chat_completions_create rem n cl kw = fst (create_attempts rem n cl kw 0 (max_retries cl))"

datatype exn = ValueError string | RuntimeError string | TypeError string

subsection \<open>LLMClient.generate\<close>

text \<open>
  The body of the \<open>try\<close> block, one definition per branch: the value returned, or
  \<open>str(e)\<close> of the exception raised in it, together with the transport call that was
  made. \<open>n\<close> is the number of transport calls made before.
\<close>

definition openai_branch ::
  "remote \<Rightarrow> nat \<Rightarrow> openai_client \<Rightarrow> model_config \<Rightarrow> message list \<Rightarrow> real \<Rightarrow> int
    \<Rightarrow> (string + pyval) \<times> transport_call" where
  "openai_branch rem n cl cfg messages temp max_tok =
     (let kw = \<lparr>kw_model = cfg_model_name cfg, kw_messages = messages,
                 kw_temperature = temp, kw_max_tokens = max_tok\<rparr>;
          call = Chat_completions_create cl kw
      in (case chat_completions_create rem n cl kw of
            Inl e \<Rightarrow> (Inl e, call)
          | Inr response \<Rightarrow>
              (case choices response of
                 [] \<Rightarrow> (Inl ''list index out of range'', call)
               | c # _ \<Rightarrow> (Inr c, call))))"

definition ollama_branch ::
  "remote \<Rightarrow> nat \<Rightarrow> string \<Rightarrow> model_config \<Rightarrow> message list \<Rightarrow> real \<Rightarrow> int
    \<Rightarrow> (string + pyval) \<times> transport_call" where
  "ollama_branch rem n url cfg messages temp max_tok =
     (let body = \<lparr>js_model = cfg_model_name cfg, js_messages = messages, js_stream = False,
                   js_options = \<lparr>opt_temperature = temp, opt_num_predict = max_tok\<rparr>\<rparr>;
          call = Requests_post (url @ ''/api/chat'') body
      in (case requests_post rem n (url @ ''/api/chat'') body of
            Inl e \<Rightarrow> (Inl e, call)
          | Inr response \<Rightarrow>
              (case raise_for_status response of
                 Some e \<Rightarrow> (Inl e, call)
               | None \<Rightarrow>
                   (case resp_json response of
                      Inl e \<Rightarrow> (Inl e, call)
                    | Inr result \<Rightarrow>
                        (case json_get result (Object None) of
                           Inl e \<Rightarrow> (Inl e, call)
                         | Inr msg \<Rightarrow> (json_get msg (PStr []), call))))))"

fun try_generate ::
  "remote \<Rightarrow> nat \<Rightarrow> client_info \<Rightarrow> message list \<Rightarrow> real \<Rightarrow> int
    \<Rightarrow> (string + pyval) \<times> transport_call" where
  "try_generate rem n (OpenAI_compatible cl cfg) messages temp max_tok =
     openai_branch rem n cl cfg messages temp max_tok"
| "try_generate rem n (OpenAI cl cfg) messages temp max_tok =
     openai_branch rem n cl cfg messages temp max_tok"
| "try_generate rem n (Ollama url cfg) messages temp max_tok =
     ollama_branch rem n url cfg messages temp max_tok"

text \<open>
  \<open>generate\<close> threads the log of transport calls (oldest first): the result is the
  exception raised or the text returned, and the log after the call.
\<close>

definition generate ::
  "remote \<Rightarrow> llm_client \<Rightarrow> transport_call list \<Rightarrow> string \<Rightarrow> message list
    \<Rightarrow> real option \<Rightarrow> int option \<Rightarrow> (exn + pyval) \<times> transport_call list" where
  "generate rem self calls model_id messages temperature max_tokens =
     (case clients self model_id of
        None \<Rightarrow>
          (Inl (ValueError (''Model '' @ model_id @ '' not initialized. Check API keys.'')), calls)
      | Some client_info \<Rightarrow>
          (let cfg = config client_info;
               temp = (case temperature of Some t \<Rightarrow> t | None \<Rightarrow> cfg_temperature cfg);
               max_tok = (case max_tokens of Some m \<Rightarrow> m | None \<Rightarrow> cfg_max_tokens cfg)
           in (case try_generate rem (length calls) client_info messages temp max_tok of
                 (Inr text, call) \<Rightarrow> (Inr text, calls @ [call])
               | (Inl e, call) \<Rightarrow>
                   (Inl (RuntimeError (''Error generating from '' @ model_id @ '': '' @ e)),
                    calls @ [call]))))"

subsection \<open>LLMClient.test\_connection\<close>

text \<open>\<open>except Exception\<close> catches both exceptions of \<open>generate\<close>; the print is not modelled.\<close>

definition test_connection ::
  "remote \<Rightarrow> llm_client \<Rightarrow> transport_call list \<Rightarrow> string \<Rightarrow> bool \<times> transport_call list" where
  "test_connection rem self calls model_id =
     (case generate rem self calls model_id [\<lparr>role = ''user'', content = PStr ''Say hi''\<rparr>]
             None (Some 50) of
        (Inr response, calls') \<Rightarrow> (response \<noteq> PNone, calls')
      | (Inl e, calls') \<Rightarrow> (False, calls'))"


subsection \<open>Observing a transport call\<close>

text \<open>The sampling parameters and the messages that a logged transport call carried.\<close>

fun call_temperature :: "transport_call \<Rightarrow> real" where
  "call_temperature (Chat_completions_create cl kw) = kw_temperature kw"
| "call_temperature (Requests_post url body) = opt_temperature (js_options body)"

fun call_max_tokens :: "transport_call \<Rightarrow> int" where
  "call_max_tokens (Chat_completions_create cl kw) = kw_max_tokens kw"
| "call_max_tokens (Requests_post url body) = opt_num_predict (js_options body)"

fun call_messages :: "transport_call \<Rightarrow> message list" where
  "call_messages (Chat_completions_create cl kw) = kw_messages kw"
| "call_messages (Requests_post url body) = js_messages body"

text \<open>
  The backend-level failures after which the \<open>try\<close> block raises, read off the remote
  side for a transport call made after \<open>n\<close> earlier ones: the transport call itself
  raises (for \<open>requests.post\<close> a network error; for the OpenAI client the error of its
  last attempt), the status check of the HTTP response raises, or the payload cannot be
  read (the body is no JSON, the body or its \<open>message\<close> is no JSON object, the completion
  has no choice). Each carries the text of its cause. A JSON object that lacks
  \<open>message\<close> or \<open>content\<close> is not among them.
\<close>

datatype failure = Transport_raised string | Bad_status string | Malformed_payload string

fun cause :: "failure \<Rightarrow> string" where
  "cause (Transport_raised e) = e"
| "cause (Bad_status e) = e"
| "cause (Malformed_payload e) = e"

fun transport_failure :: "remote \<Rightarrow> nat \<Rightarrow> transport_call \<Rightarrow> failure option" where
  "transport_failure rem n (Chat_completions_create cl kw) =
     (case chat_completions_create rem n cl kw of
        Inl e \<Rightarrow> Some (Transport_raised e)
      | Inr response \<Rightarrow>
          (if choices response = [] then Some (Malformed_payload ''list index out of range'')
           else None))"
| "transport_failure rem n (Requests_post url body) =
     (case requests_post rem n url body of
        Inl e \<Rightarrow> Some (Transport_raised e)
      | Inr response \<Rightarrow>
          (case raise_for_status response of
             Some e \<Rightarrow> Some (Bad_status e)
           | None \<Rightarrow>
               (case resp_json response of
                  Inl e \<Rightarrow> Some (Malformed_payload e)
                | Inr (Non_object tn) \<Rightarrow> Some (Malformed_payload (no_attribute_get tn))
                | Inr (Object (Some (Non_object tn))) \<Rightarrow>
                    Some (Malformed_payload (no_attribute_get tn))
                | Inr (Object _) \<Rightarrow> None)))"

text \<open>
  The HTTP attempts made inside one transport call: those of the OpenAI client, and the
  single one of \<open>requests.post\<close>, for which the source configures no retry.
\<close>

fun transport_attempts :: "remote \<Rightarrow> nat \<Rightarrow> transport_call \<Rightarrow> nat" where
  "transport_attempts rem n (Chat_completions_create cl kw) =
     snd (create_attempts rem n cl kw 0 (max_retries cl))"
| "transport_attempts rem n (Requests_post url body) = 1"

text \<open>The most HTTP attempts that one transport call of a registered client makes.\<close>

fun max_attempts :: "client_info \<Rightarrow> nat" where
  "max_attempts (OpenAI_compatible cl cfg) = Suc (max_retries cl)"
| "max_attempts (OpenAI cl cfg) = Suc (max_retries cl)"
| "max_attempts (Ollama url cfg) = 1"


section \<open>The conversational agents\<close>

text \<open>
  The attributes both agent classes have; each class extends them with its own. The
  agents hold a reference to the one \<open>LLMClient\<close>, which nothing changes after its
  construction.
\<close>

record agent =
  model_id :: string
  client :: llm_client
  conversation_history :: "message list"
  system_prompt :: string

record patient_agent = agent +
  profile :: "string \<rightharpoonup> pyval"
  cefr_level :: pyval
  personality :: pyval
  recall_level :: pyval
  dazed_level :: pyval

record doctor_agent = agent +
  chief_complaint :: pyval

text \<open>\<open>d.get(key, default)\<close> on a profile.\<close>

definition profile_get :: "(string \<rightharpoonup> pyval) \<Rightarrow> string \<Rightarrow> pyval \<Rightarrow> pyval" where
  "profile_get p key dflt = (case p key of None \<Rightarrow> dflt | Some v \<Rightarrow> v)"

text \<open>
  \<open>d.get(key, default)\<close> on a dictionary literal with string keys, looked up with a
  profile value. The key is hashed first: \<open>hash_error\<close> is the exception this raises for
  a list or a dict. \<open>dict_get\<close> is the lookup that follows for a key that can be hashed:
  only a string can be equal to a key of the dictionary.
\<close>

definition hash_error :: "pyval \<Rightarrow> exn option" where
  "hash_error key =
     (case unhashable key of
        None \<Rightarrow> None
      | Some tn \<Rightarrow> Some (TypeError (''unhashable type: '' @ [CHR 0x27] @ tn @ [CHR 0x27])))"

fun dict_get :: "(string \<rightharpoonup> 'a) \<Rightarrow> pyval \<Rightarrow> 'a \<Rightarrow> 'a" where
  "dict_get d (PStr k) dflt = (case d k of None \<Rightarrow> dflt | Some v \<Rightarrow> v)"
| "dict_get d v dflt = dflt"


section \<open>patient\_agent.py\<close>

subsection \<open>The instruction blocks of the four persona axes\<close>

definition cefr_instructions_A :: string where
  "cefr_instructions_A =
     ''Use very simple English. Use short sentences (5-10 words). Use only basic vocabulary. Avoid complex grammar. Speak like a beginner English learner.''"

definition cefr_instructions_B :: string where
  "cefr_instructions_B =
     ''Use everyday English. Use moderate sentence length (10-15 words). Use common vocabulary. Avoid very complex words. Speak like an intermediate English speaker.''"

definition cefr_instructions_C :: string where
  "cefr_instructions_C =
     ''Use fluent English. Use varied sentence structures. Use sophisticated vocabulary when appropriate. Speak like an advanced English speaker.''"

definition personality_instructions_plain :: string where
  "personality_instructions_plain =
     ''Be cooperative and straightforward. Answer questions directly and honestly. Trust the doctor.''"

definition personality_instructions_distrust :: string where
  "personality_instructions_distrust =
     ''Be somewhat guarded and suspicious. Question the doctor's recommendations. Show reluctance to share information immediately. Express doubts about treatments.''"

definition recall_instructions_low :: string where
  "recall_instructions_low =
     ''You have difficulty remembering details. Often say 'I don't remember' or 'I'm not sure' when asked about specifics. Provide vague timeframes.''"

definition recall_instructions_medium :: string where
  "recall_instructions_medium =
     ''You remember most important details but may forget minor specifics. Occasionally need prompting to recall information.''"

definition recall_instructions_high :: string where
  "recall_instructions_high =
     ''You remember details clearly. Provide specific dates, times, and descriptions when asked.''"

definition dazed_instructions_normal :: string where
  "dazed_instructions_normal =
     ''You are clear-headed and can follow the conversation well.''"

definition dazed_instructions_confused :: string where
  "dazed_instructions_confused =
     ''You are somewhat confused or disoriented. Occasionally lose track of the conversation. Ask the doctor to repeat questions. Mix up some details.''"

definition cefr_instructions :: "string \<rightharpoonup> string" where
  "cefr_instructions =
     map_of [(''A'', cefr_instructions_A), (''B'', cefr_instructions_B), (''C'', cefr_instructions_C)]"

definition personality_instructions :: "string \<rightharpoonup> string" where
  "personality_instructions =
     map_of [(''plain'', personality_instructions_plain),
             (''distrust'', personality_instructions_distrust)]"

definition recall_instructions :: "string \<rightharpoonup> string" where
  "recall_instructions =
     map_of [(''low'', recall_instructions_low), (''medium'', recall_instructions_medium),
             (''high'', recall_instructions_high)]"

definition dazed_instructions :: "string \<rightharpoonup> string" where
  "dazed_instructions =
     map_of [(''normal'', dazed_instructions_normal), (''confused'', dazed_instructions_confused)]"

subsection \<open>Vocabulary\<close>

definition vocab_keys :: "string \<rightharpoonup> string list" where
  "vocab_keys =
     map_of
      [(''A'', [''med_A'', ''cefr_A1'', ''cefr_A2'']),
       (''B'', [''med_A'', ''med_B'', ''cefr_A1'', ''cefr_A2'', ''cefr_B1'', ''cefr_B2'']),
       (''C'', [''med_A'', ''med_B'', ''med_C'', ''cefr_A1'', ''cefr_A2'', ''cefr_B1'',
                ''cefr_B2'', ''cefr_C1'', ''cefr_C2''])]"

text \<open>
  The loop over the keys: a key that is in the profile with a string value extends the
  vocabulary by the items of that string.
\<close>

fun extend_vocabulary :: "(string \<rightharpoonup> pyval) \<Rightarrow> string list \<Rightarrow> string list \<Rightarrow> string list" where
  "extend_vocabulary p vocab [] = vocab"
| "extend_vocabulary p vocab (key # keys) =
     (case p key of
        Some (PStr vocab_list) \<Rightarrow>
          extend_vocabulary p (vocab @ split_comma_space [] vocab_list) keys
      | _ \<Rightarrow> extend_vocabulary p vocab keys)"

definition vocabulary :: "patient_agent \<Rightarrow> string list" where
  "vocabulary self =
     extend_vocabulary (profile self) [] (dict_get vocab_keys (cefr_level self) [''med_A''])"

text \<open>
  \<open>random.sample(population, k)\<close> for \<open>k \<le> len(population)\<close>, as the one call passes
  it: \<open>k\<close> draws without replacement from a pool, the drawn slot refilled with the last
  live one. The generator is a parameter: \<open>rng i\<close> decides the \<open>i\<close>-th draw, reduced
  below the number of live slots. No seed is fixed, so every \<open>rng\<close> is possible.
\<close>

fun sample_pool :: "(nat \<Rightarrow> nat) \<Rightarrow> 'a list \<Rightarrow> nat \<Rightarrow> nat \<Rightarrow> 'a list" where
  "sample_pool rng pool i 0 = []"
| "sample_pool rng pool i (Suc k) =
     (let j = rng i mod (length pool - i)
      in pool ! j # sample_pool rng (pool[j := pool ! (length pool - i - 1)]) (Suc i) k)"

definition random_sample :: "(nat \<Rightarrow> nat) \<Rightarrow> 'a list \<Rightarrow> nat \<Rightarrow> 'a list" where
  "random_sample rng population k = sample_pool rng population 0 k"

definition vocab_sample :: "(nat \<Rightarrow> nat) \<Rightarrow> patient_agent \<Rightarrow> string list" where
  "vocab_sample rng self =
     random_sample rng (vocabulary self) (min 30 (length (vocabulary self)))"

subsection \<open>PatientAgent.\_build\_system\_prompt\<close>

text \<open>The f-string, cut at its headings; one list item per literal line or interpolation.\<close>

definition patient_profile_section :: "patient_agent \<Rightarrow> string" where
  "patient_profile_section self =
     concat
      [''You are simulating a patient visiting the emergency department. You must stay in character throughout the conversation.\<newline>'',
       ''\<newline>'',
       ''## PATIENT PROFILE\<newline>'',
       ''\<newline>'',
       ''**Demographics:**\<newline>'',
       ''- Age: '',
       py_str (profile_get (profile self) ''age'' PNone),
       '' years old\<newline>'',
       ''- Gender: '',
       py_str (profile_get (profile self) ''gender'' PNone),
       ''\<newline>'',
       ''- Race: '',
       py_str (profile_get (profile self) ''race'' PNone),
       ''\<newline>'',
       ''- Marital Status: '',
       py_str (profile_get (profile self) ''marital_status'' PNone),
       ''\<newline>'',
       ''- Occupation: '',
       py_str (profile_get (profile self) ''occupation'' PNone),
       ''\<newline>'',
       ''- Living Situation: '',
       py_str (profile_get (profile self) ''living_situation'' PNone),
       ''\<newline>'',
       ''- Children: '',
       py_str (profile_get (profile self) ''children'' (PStr ''Not recorded'')),
       ''\<newline>'',
       ''\<newline>'',
       ''**Chief Complaint:** '',
       py_str (profile_get (profile self) ''chiefcomplaint'' PNone),
       ''\<newline>'',
       ''**Pain Level:** '',
       py_str (profile_get (profile self) ''pain'' PNone),
       ''/10\<newline>'',
       ''**Diagnosis (DO NOT REVEAL):** '',
       py_str (profile_get (profile self) ''diagnosis'' PNone),
       ''\<newline>'',
       ''\<newline>'',
       ''**Present Illness - Symptoms You Experience:**\<newline>'',
       py_str (profile_get (profile self) ''present_illness_positive'' (PStr ''Not recorded'')),
       ''\<newline>'',
       ''\<newline>'',
       ''**Symptoms You DO NOT Have:**\<newline>'',
       py_str (profile_get (profile self) ''present_illness_negative'' (PStr ''Not recorded'')),
       ''\<newline>'',
       ''\<newline>'',
       ''**Medical History:**\<newline>'',
       py_str (profile_get (profile self) ''medical_history'' (PStr ''None reported'')),
       ''\<newline>'',
       ''\<newline>'',
       ''**Current Medications:**\<newline>'',
       py_str (profile_get (profile self) ''medication'' (PStr ''None'')),
       ''\<newline>'',
       ''\<newline>'',
       ''**Allergies:**\<newline>'',
       py_str (profile_get (profile self) ''allergies'' (PStr ''No known allergies'')),
       ''\<newline>'',
       ''\<newline>'',
       ''**Social History:**\<newline>'',
       ''- Tobacco: '',
       py_str (profile_get (profile self) ''tobacco'' (PStr ''Not recorded'')),
       ''\<newline>'',
       ''- Alcohol: '',
       py_str (profile_get (profile self) ''alcohol'' (PStr ''Not recorded'')),
       ''\<newline>'',
       ''- Drugs: '',
       py_str (profile_get (profile self) ''illicit_drug'' (PStr ''Not recorded'')),
       ''\<newline>'',
       ''- Exercise: '',
       py_str (profile_get (profile self) ''exercise'' (PStr ''Not recorded'')),
       ''\<newline>'',
       ''\<newline>'',
       ''**Family History:**\<newline>'',
       py_str (profile_get (profile self) ''family_medical_history'' (PStr ''Noncontributory'')),
       ''\<newline>'',
       ''\<newline>'',
       ''## PERSONA ATTRIBUTES\<newline>'',
       ''\<newline>'']"


definition patient_language_paragraph :: "patient_agent \<Rightarrow> string" where
  "patient_language_paragraph self =
     concat
      [''**Language Level (CEFR '',
       py_str (cefr_level self),
       ''):**\<newline>'',
       dict_get cefr_instructions (cefr_level self) cefr_instructions_B,
       ''\<newline>'',
       ''\<newline>'']"


definition patient_vocabulary_paragraph :: "(nat \<Rightarrow> nat) \<Rightarrow> patient_agent \<Rightarrow> string" where
  "patient_vocabulary_paragraph rng self =
     concat
      [''**Vocabulary to use:** '',
       join '', '' (take 20 (vocab_sample rng self)),
       ''\<newline>'',
       ''Avoid using complex medical terms unless you're CEFR level C.\<newline>'',
       ''\<newline>'']"


definition patient_personality_paragraph :: "patient_agent \<Rightarrow> string" where
  "patient_personality_paragraph self =
     concat
      [''**Personality ('',
       py_str (personality self),
       ''):**\<newline>'',
       dict_get personality_instructions (personality self) personality_instructions_plain,
       ''\<newline>'',
       ''\<newline>'']"


definition patient_recall_paragraph :: "patient_agent \<Rightarrow> string" where
  "patient_recall_paragraph self =
     concat
      [''**Memory/Recall ('',
       py_str (recall_level self),
       ''):**\<newline>'',
       dict_get recall_instructions (recall_level self) recall_instructions_medium,
       ''\<newline>'',
       ''\<newline>'']"


definition patient_clarity_paragraph :: "patient_agent \<Rightarrow> string" where
  "patient_clarity_paragraph self =
     concat
      [''**Mental Clarity ('',
       py_str (dazed_level self),
       ''):**\<newline>'',
       dict_get dazed_instructions (dazed_level self) dazed_instructions_normal,
       ''\<newline>'',
       ''\<newline>'']"


definition patient_rules_section :: string where
  "patient_rules_section =
     concat
      [''## IMPORTANT RULES\<newline>'',
       ''\<newline>'',
       ''1. **Stay in character:** Always respond as this specific patient would, based on their persona\<newline>'',
       ''2. **Be realistic:** Respond naturally like a real patient would in an ED\<newline>'',
       ''3. **Don't volunteer everything:** Let the doctor ask questions\<newline>'',
       ''4. **Show emotions:** Express pain, worry, frustration as appropriate\<newline>'',
       ''5. **Only reveal what you know:** Don't mention the diagnosis or information not in your profile\<newline>'',
       ''6. **Use appropriate language:** Match your CEFR level consistently\<newline>'',
       ''7. **Be consistent:** Don't contradict information you've already shared\<newline>'',
       ''8. **Natural responses:** Use filler words, pauses, and natural speech patterns\<newline>'',
       ''\<newline>'',
       ''## RESPONSE FORMAT\<newline>'',
       ''\<newline>'',
       ''Respond ONLY with what the patient would say. Do not include:\<newline>'',
       ''- Stage directions like \"(coughs)\" or \"[looks worried]\"\<newline>'',
       ''- Explanations of why you're responding this way\<newline>'',
       ''- Meta-commentary\<newline>'',
       ''\<newline>'',
       ''Just speak naturally as the patient.\<newline>'']"

text \<open>
  The text of the f-string: what \<open>_build_system_prompt\<close> returns when every dictionary
  lookup in it gets a key that can be hashed.
\<close>

definition patient_render_prompt :: "(nat \<Rightarrow> nat) \<Rightarrow> patient_agent \<Rightarrow> string" where
  "patient_render_prompt rng self =
     patient_profile_section self @ patient_language_paragraph self
     @ patient_vocabulary_paragraph rng self @ patient_personality_paragraph self
     @ patient_recall_paragraph self @ patient_clarity_paragraph self @ patient_rules_section"

text \<open>
  \<open>_build_system_prompt\<close> looks five dictionaries up, in this order: \<open>vocab_keys\<close> and
  \<open>cefr_instructions\<close> with the language level, then \<open>personality_instructions\<close>,
  \<open>recall_instructions\<close> and \<open>dazed_instructions\<close> with their axis values. The first key
  that cannot be hashed makes it raise; nothing else in it can raise.
\<close>

definition patient_build_system_prompt :: "(nat \<Rightarrow> nat) \<Rightarrow> patient_agent \<Rightarrow> exn + string" where
  "patient_build_system_prompt rng self =
     (case hash_error (cefr_level self) of
        Some e \<Rightarrow> Inl e
      | None \<Rightarrow>
     (case hash_error (personality self) of
        Some e \<Rightarrow> Inl e
      | None \<Rightarrow>
     (case hash_error (recall_level self) of
        Some e \<Rightarrow> Inl e
      | None \<Rightarrow>
     (case hash_error (dazed_level self) of
        Some e \<Rightarrow> Inl e
      | None \<Rightarrow> Inr (patient_render_prompt rng self)))))"

subsection \<open>PatientAgent.\_\_init\_\_ and respond\<close>

text \<open>The attributes \<open>__init__\<close> sets before it builds the prompt.\<close>

definition patient_attributes :: "(string \<rightharpoonup> pyval) \<Rightarrow> string \<Rightarrow> llm_client \<Rightarrow> patient_agent" where
  "patient_attributes p mid llm =
     \<lparr>model_id = mid, client = llm, conversation_history = [], system_prompt = [],
      profile = p,
      cefr_level = profile_get p ''cefr'' (PStr ''B''),
      personality = profile_get p ''personality'' (PStr ''plain''),
      recall_level = profile_get p ''recall_level'' (PStr ''medium''),
      dazed_level = profile_get p ''dazed_level'' (PStr ''normal'')\<rparr>"

text \<open>The constructor returns the agent, or the exception that building the prompt raised.\<close>

definition PatientAgent_init ::
  "(nat \<Rightarrow> nat) \<Rightarrow> (string \<rightharpoonup> pyval) \<Rightarrow> string \<Rightarrow> llm_client \<Rightarrow> exn + patient_agent" where
  "PatientAgent_init rng p mid llm =
     (let self = patient_attributes p mid llm
      in (case patient_build_system_prompt rng self of
            Inl e \<Rightarrow> Inl e
          | Inr prompt \<Rightarrow> Inr (self\<lparr>system_prompt := prompt\<rparr>)))"

text \<open>
  The persona-axis values of a profile, as the constructor reads them, can all be
  hashed.
\<close>

definition hashable_axes :: "(string \<rightharpoonup> pyval) \<Rightarrow> bool" where
  "hashable_axes p =
     (unhashable (profile_get p ''cefr'' (PStr ''B'')) = None
      \<and> unhashable (profile_get p ''personality'' (PStr ''plain'')) = None
      \<and> unhashable (profile_get p ''recall_level'' (PStr ''medium'')) = None
      \<and> unhashable (profile_get p ''dazed_level'' (PStr ''normal'')) = None)"

text \<open>
  \<open>respond\<close> returns the exception raised or the reply, the agent after the call
  (an exception does not undo what was done to the agent before it), and the log of
  transport calls.
\<close>

definition patient_respond ::
  "remote \<Rightarrow> transport_call list \<Rightarrow> patient_agent \<Rightarrow> pyval
    \<Rightarrow> (exn + pyval) \<times> patient_agent \<times> transport_call list" where
  "patient_respond rem calls self doctor_message =
     (let self1 = self\<lparr>conversation_history := conversation_history self
                    @ [\<lparr>role = ''user'', content = PStr (''Doctor: '' @ py_str doctor_message)\<rparr>]\<rparr>;
          messages = \<lparr>role = ''system'', content = PStr (system_prompt self1)\<rparr>
                     # conversation_history self1
      in (case generate rem (client self1) calls (model_id self1) messages None None of
            (Inl e, calls') \<Rightarrow> (Inl e, self1, calls')
          | (Inr response, calls') \<Rightarrow>
              (Inr response,
               self1\<lparr>conversation_history := conversation_history self1
                        @ [\<lparr>role = ''assistant'', content = response\<rparr>]\<rparr>,
               calls')))"


section \<open>doctor\_agent.py\<close>

definition doctor_build_system_prompt :: "doctor_agent \<Rightarrow> string" where
  "doctor_build_system_prompt self =
     concat
      [''You are an experienced emergency department physician conducting a patient interview. Your goal is to gather comprehensive medical information to make an accurate diagnosis.\<newline>'',
       ''\<newline>'',
       ''## CHIEF COMPLAINT\<newline>'',
       ''The patient presents with: '',
       py_str (chief_complaint self),
       ''\<newline>'',
       ''\<newline>'',
       ''## YOUR RESPONSIBILITIES\<newline>'',
       ''\<newline>'',
       ''1. **Conduct a thorough history:**\<newline>'',
       ''   - History of Present Illness (HPI): Onset, location, duration, characteristics, aggravating/relieving factors, radiation, timing, severity\<newline>'',
       ''   - Review of Systems (ROS): Systematic review of relevant systems\<newline>'',
       ''   - Past Medical History (PMH): Previous conditions, surgeries, hospitalizations\<newline>'',
       ''   - Medications: Current medications, dosages, compliance\<newline>'',
       ''   - Allergies: Drug allergies and reactions\<newline>'',
       ''   - Social History: Tobacco, alcohol, drugs, occupation, living situation\<newline>'',
       ''   - Family History: Relevant family medical history\<newline>'',
       ''\<newline>'',
       ''2. **Ask focused, clear questions:**\<newline>'',
       ''   - One question at a time\<newline>'',
       ''   - Use open-ended questions initially, then follow up with specific questions\<newline>'',
       ''   - Adapt your language to the patient's comprehension level\<newline>'',
       ''   - Be empathetic and professional\<newline>'',
       ''\<newline>'',
       ''3. **Build rapport:**\<newline>'',
       ''   - Show empathy and concern\<newline>'',
       ''   - Acknowledge the patient's discomfort\<newline>'',
       ''   - Explain your reasoning when appropriate\<newline>'',
       ''\<newline>'',
       ''4. **Work toward diagnosis:**\<newline>'',
       ''   - Gather enough information to form a differential diagnosis\<newline>'',
       ''   - Ask follow-up questions based on patient responses\<newline>'',
       ''   - Consider red flags and serious conditions\<newline>'',
       ''\<newline>'',
       ''## INTERVIEW STRUCTURE\<newline>'',
       ''\<newline>'',
       ''Start with:\<newline>'',
       ''1. Introduction and opening question about the chief complaint\<newline>'',
       ''2. Detailed history of present illness\<newline>'',
       ''3. Associated symptoms (review of systems)\<newline>'',
       ''4. Past medical history and medications\<newline>'',
       ''5. Social and family history\<newline>'',
       ''6. Summarize findings and explain next steps\<newline>'',
       ''\<newline>'',
       ''## CONVERSATION STYLE\<newline>'',
       ''\<newline>'',
       ''- Be professional yet warm\<newline>'',
       ''- Use clear, simple language\<newline>'',
       ''- Ask one question at a time\<newline>'',
       ''- Listen carefully to responses\<newline>'',
       ''- Follow up on important details\<newline>'',
       ''- Adapt to the patient's communication style\<newline>'',
       ''\<newline>'',
       ''## IMPORTANT RULES\<newline>'',
       ''\<newline>'',
       ''1. Stay in character as a physician\<newline>'',
       ''2. Do not make diagnoses out loud (think through differential internally)\<newline>'',
       ''3. Focus on gathering information through questions\<newline>'',
       ''4. Be realistic - you cannot perform physical exams in this text conversation\<newline>'',
       ''5. If the patient seems confused or has language difficulties, adjust your approach\<newline>'',
       ''6. Respond naturally - no stage directions or meta-commentary\<newline>'',
       ''\<newline>'',
       ''## RESPONSE FORMAT\<newline>'',
       ''\<newline>'',
       ''Respond ONLY with what the doctor would say. Keep responses concise and focused.\<newline>'']"


definition DoctorAgent_init :: "string \<Rightarrow> llm_client \<Rightarrow> pyval \<Rightarrow> doctor_agent" where
  "DoctorAgent_init mid llm patient_chief_complaint =
     (let self = \<lparr>model_id = mid, client = llm, conversation_history = [], system_prompt = [],
                   chief_complaint = patient_chief_complaint\<rparr>
      in self\<lparr>system_prompt := doctor_build_system_prompt self\<rparr>)"


text \<open>The local \<open>context\<close> of \<open>respond\<close>: the closing addendum, or the empty string.\<close>

definition addendum :: "int \<Rightarrow> int \<Rightarrow> string" where
  "addendum turn_number max_turns =
     ''\<newline>\<newline>[You are near the end of the interview (turn '' @ str_int turn_number
     @ ''/'' @ str_int max_turns @ ''). Start summarizing and explaining next steps.]''"

definition closing_context :: "int \<Rightarrow> int \<Rightarrow> string" where
  "closing_context turn_number max_turns =
     (if turn_number \<ge> max_turns - 2 then addendum turn_number max_turns else [])"

text \<open>
  The message list \<open>respond\<close> hands to \<open>generate\<close>, built after the patient's message
  has been appended.
\<close>

definition doctor_messages :: "doctor_agent \<Rightarrow> int \<Rightarrow> int \<Rightarrow> message list" where
  "doctor_messages self1 turn_number max_turns =
     \<lparr>role = ''system'',
      content = PStr (system_prompt self1 @ closing_context turn_number max_turns)\<rparr>
     # conversation_history self1"

definition doctor_respond ::
  "remote \<Rightarrow> transport_call list \<Rightarrow> doctor_agent \<Rightarrow> pyval \<Rightarrow> int \<Rightarrow> int
    \<Rightarrow> (exn + pyval) \<times> doctor_agent \<times> transport_call list" where
  "doctor_respond rem calls self patient_message turn_number max_turns =
     (let self1 = self\<lparr>conversation_history := conversation_history self
                    @ [\<lparr>role = ''user'', content = PStr (''Patient: '' @ py_str patient_message)\<rparr>]\<rparr>;
          messages = doctor_messages self1 turn_number max_turns
      in (case generate rem (client self1) calls (model_id self1) messages None None of
            (Inl e, calls') \<Rightarrow> (Inl e, self1, calls')
          | (Inr response, calls') \<Rightarrow>
              (Inr response,
               self1\<lparr>conversation_history := conversation_history self1
                        @ [\<lparr>role = ''assistant'', content = response\<rparr>]\<rparr>,
               calls')))"

text \<open>A history entry holds a text: the text is a part of its content, as \<open>str\<close> shows it.\<close>

definition mentions :: "string \<Rightarrow> message \<Rightarrow> bool" where
  "mentions txt entry = sublist txt (py_str (content entry))"

definition should_end_interview :: "doctor_agent \<Rightarrow> int \<Rightarrow> int \<Rightarrow> bool" where
  "should_end_interview self turn_number max_turns = (turn_number \<ge> max_turns)"


section \<open>generate\_dialogues.py: the orchestrator\<close>

record dialogue_generator =
  llm_client :: llm_client
  max_turns :: int





text \<open>The dialogue record: both agents' metadata, the transcript, the diagnosis.\<close>

record dialogue_data =
  hadm_id :: pyval
  age :: pyval
  gender :: pyval
  diagnosis :: pyval
  cefr_type :: pyval
  personality_type :: pyval
  recall_level_type :: pyval
  dazed_level_type :: pyval
  patient_engine_name :: string
  doctor_engine_name :: string
  dialog_history :: "message list"






section \<open>Fixtures\<close>

text \<open>A gateway with one backend of each kind, and remote sides with fixed behaviour.\<close>

definition example_config :: model_config where
  "example_config = \<lparr>cfg_model_name = ''chat'', cfg_temperature = 7 / 10, cfg_max_tokens = 512\<rparr>"

definition example_llm_client :: llm_client where
  "example_llm_client =
     \<lparr>clients =
        [''deepseek-api'' \<mapsto>
           OpenAI_compatible (OpenAI_client ''key1'' (Some ''https://api.deepseek.com''))
             example_config,
         ''gpt-4.1-api'' \<mapsto> OpenAI (OpenAI_client ''key2'' None) example_config,
         ''ollama-local'' \<mapsto> Ollama ''http://localhost:11434'' example_config]\<rparr>"

text \<open>Every attempt completes and every post returns: always with the same content.\<close>

definition canned_remote :: "pyval \<Rightarrow> remote" where
  "canned_remote reply =
     \<lparr>openai_http = (\<lambda>n k cl kw. Completed \<lparr>choices = [reply]\<rparr>),
      requests_post =
        (\<lambda>n url body.
           Inr \<lparr>raise_for_status = None, resp_json = Inr (Object (Some (Object (Some reply))))\<rparr>)\<rparr>"

text \<open>No attempt gets through, and every post raises: a network that is down.\<close>

definition failing_remote :: "string \<Rightarrow> remote" where
  "failing_remote e =
     \<lparr>openai_http = (\<lambda>n k cl kw. Retryable e), requests_post = (\<lambda>n url body. Inl e)\<rparr>"

text \<open>
  Every post returns with an error status, which the status check raises; every
  attempt completes with no choice.
\<close>

definition bad_status_remote :: "string \<Rightarrow> remote" where
  "bad_status_remote e =
     \<lparr>openai_http = (\<lambda>n k cl kw. Completed \<lparr>choices = []\<rparr>),
      requests_post =
        (\<lambda>n url body. Inr \<lparr>raise_for_status = Some e, resp_json = Inr (Object None)\<rparr>)\<rparr>"

text \<open>Every post returns with a good status and a body that is no JSON.\<close>

definition malformed_remote :: "string \<Rightarrow> remote" where
  "malformed_remote e =
     \<lparr>openai_http = (\<lambda>n k cl kw. Completed \<lparr>choices = []\<rparr>),
      requests_post = (\<lambda>n url body. Inr \<lparr>raise_for_status = None, resp_json = Inl e\<rparr>)\<rparr>"

text \<open>
  The first two attempts of every client call end with an error status that the library
  tries again, the third completes. Every post returns with a good status and the body
  \<open>{}\<close>: a JSON object without \<open>message\<close>.
\<close>

definition flaky_remote :: "string \<Rightarrow> pyval \<Rightarrow> remote" where
  "flaky_remote e reply =
     \<lparr>openai_http = (\<lambda>n k cl kw. if k < 2 then Retryable e else Completed \<lparr>choices = [reply]\<rparr>),
      requests_post =
        (\<lambda>n url body. Inr \<lparr>raise_for_status = None, resp_json = Inr (Object None)\<rparr>)\<rparr>"

text \<open>A backend that echoes: the reply is the content of the system message it was sent.\<close>

definition echo_remote :: remote where
  "echo_remote =
     \<lparr>openai_http = (\<lambda>n k cl kw. Completed \<lparr>choices = [content (hd (kw_messages kw))]\<rparr>),
      requests_post =
        (\<lambda>n url body.
           Inr \<lparr>raise_for_status = None,
                resp_json = Inr (Object (Some (Object (Some (content (hd (js_messages body)))))))\<rparr>)\<rparr>"

definition example_profile :: "string \<rightharpoonup> pyval" where
  "example_profile =
     [''hadm_id'' \<mapsto> PInt 12345, ''age'' \<mapsto> PInt 63, ''chiefcomplaint'' \<mapsto> PStr ''chest pain'',
      ''cefr'' \<mapsto> PStr ''A'', ''personality'' \<mapsto> PStr ''distrust'',
      ''med_A'' \<mapsto> PStr ''pain, chest, heart'', ''cefr_A1'' \<mapsto> PStr ''bad, hurt''
     ]"


text \<open>A profile whose four persona axes carry values the agent does not know.\<close>

definition odd_profile :: "string \<rightharpoonup> pyval" where
  "odd_profile =
     [''chiefcomplaint'' \<mapsto> PStr ''chest pain'', ''cefr'' \<mapsto> PStr ''D'',
      ''personality'' \<mapsto> PStr ''hostile'', ''recall_level'' \<mapsto> PInt 3,
      ''dazed_level'' \<mapsto> PNone, ''med_A'' \<mapsto> PStr ''pain, chest, heart'']"

text \<open>A generator whose every draw is \<open>0\<close>.\<close>

definition first_draws :: "nat \<Rightarrow> nat" where
  "first_draws i = 0"

text \<open>Profiles with a persona axis that carries a JSON array, or a JSON object.\<close>

definition list_profile :: "string \<rightharpoonup> pyval" where
  "list_profile =
     [''chiefcomplaint'' \<mapsto> PStr ''chest pain'', ''cefr'' \<mapsto> PList (''['' @ [CHR 0x27] @ ''A'' @ [CHR 0x27] @ '']''),
      ''med_A'' \<mapsto> PStr ''pain, chest, heart'']"

definition dict_profile :: "string \<rightharpoonup> pyval" where
  "dict_profile =
     [''chiefcomplaint'' \<mapsto> PStr ''chest pain'', ''cefr'' \<mapsto> PStr ''B'',
      ''personality'' \<mapsto> PDict (''{'' @ [CHR 0x27] @ ''a'' @ [CHR 0x27] @ '': 1}'')]"

definition example_patient :: patient_agent where
  "example_patient =
     (patient_attributes example_profile ''deepseek-api'' example_llm_client)
       \<lparr>system_prompt :=
          patient_render_prompt first_draws
            (patient_attributes example_profile ''deepseek-api'' example_llm_client)\<rparr>"

definition example_doctor :: doctor_agent where
  "example_doctor = DoctorAgent_init ''gpt-4.1-api'' example_llm_client (PStr ''chest pain'')"



section \<open>The gateway\<close>

lemma try_generate_failure:
  "try_generate rem n ci msgs temp max_tok = (r, call) \<Longrightarrow>
   (case transport_failure rem n call of
      Some f \<Rightarrow> r = Inl (cause f)
    | None \<Rightarrow> (\<exists>text. r = Inr text))"
  by (cases ci)
     (auto simp: openai_branch_def ollama_branch_def Let_def
           split: sum.splits list.splits option.splits json.splits)

lemma try_generate_call:
  "call_temperature (snd (try_generate rem n ci msgs temp max_tok)) = temp"
  "call_max_tokens (snd (try_generate rem n ci msgs temp max_tok)) = max_tok"
  "call_messages (snd (try_generate rem n ci msgs temp max_tok)) = msgs"
  by (cases ci; simp add: openai_branch_def ollama_branch_def Let_def
           split: sum.splits list.splits option.splits json.splits)+

lemma generate_log:
  "clients self mid = Some ci \<Longrightarrow>
   snd (generate rem self calls mid msgs t m) =
     calls @ [snd (try_generate rem (length calls) ci msgs
                (case t of Some t' \<Rightarrow> t' | None \<Rightarrow> cfg_temperature (config ci))
                (case m of Some m' \<Rightarrow> m' | None \<Rightarrow> cfg_max_tokens (config ci)))]"
  by (simp add: generate_def Let_def split: prod.splits sum.splits)

lemma generate_unregistered:
  "clients self mid = None \<Longrightarrow>
   generate rem self calls mid msgs t m =
     (Inl (ValueError (''Model '' @ mid @ '' not initialized. Check API keys.'')), calls)"
  by (simp add: generate_def)

lemma create_attempts_completed:
  "openai_http rem n k cl kw = Completed c \<Longrightarrow>
   create_attempts rem n cl kw k r = (Inr c, Suc k)"
  by (cases r) simp_all

lemma create_attempts_retryable:
  "(\<And>k. openai_http rem n k cl kw = Retryable e) \<Longrightarrow>
   create_attempts rem n cl kw k r = (Inl e, Suc (k + r))"
  by (induction r arbitrary: k) simp_all

lemma create_attempts_bounds:
  "k < snd (create_attempts rem n cl kw k r) \<and> snd (create_attempts rem n cl kw k r) \<le> Suc (k + r)"
proof (induction r arbitrary: k)
  case 0
  show ?case by (simp split: attempt.splits)
next
  case (Suc r)
  from Suc [of "Suc k"] show ?case by (auto split: attempt.splits)
qed

lemma try_generate_attempts:
  "1 \<le> transport_attempts rem n (snd (try_generate rem n ci msgs temp max_tok))
   \<and> transport_attempts rem n (snd (try_generate rem n ci msgs temp max_tok)) \<le> max_attempts ci"
proof (cases ci)
  case (OpenAI_compatible cl cfg)
  let ?kw = "\<lparr>kw_model = cfg_model_name cfg, kw_messages = msgs, kw_temperature = temp,
               kw_max_tokens = max_tok\<rparr>"
  have "snd (try_generate rem n ci msgs temp max_tok) = Chat_completions_create cl ?kw"
    by (simp add: OpenAI_compatible openai_branch_def Let_def split: sum.splits list.splits)
  then show ?thesis
    using create_attempts_bounds [of 0 rem n cl ?kw "max_retries cl"]
    by (simp add: OpenAI_compatible)
next
  case (OpenAI cl cfg)
  let ?kw = "\<lparr>kw_model = cfg_model_name cfg, kw_messages = msgs, kw_temperature = temp,
               kw_max_tokens = max_tok\<rparr>"
  have "snd (try_generate rem n ci msgs temp max_tok) = Chat_completions_create cl ?kw"
    by (simp add: OpenAI openai_branch_def Let_def split: sum.splits list.splits)
  then show ?thesis
    using create_attempts_bounds [of 0 rem n cl ?kw "max_retries cl"]
    by (simp add: OpenAI)
next
  case (Ollama url cfg)
  then show ?thesis
    by (simp add: ollama_branch_def Let_def split: sum.splits option.splits)
qed

lemma canned_remote_generate:
  "clients llm mid \<noteq> None \<Longrightarrow> fst (generate (canned_remote reply) llm calls mid msgs t m) = Inr reply"
  by (cases "the (clients llm mid)")
     (auto simp: generate_def canned_remote_def openai_branch_def ollama_branch_def Let_def
        chat_completions_create_def create_attempts_completed)


lemma failing_remote_generate:
  "clients llm mid \<noteq> None \<Longrightarrow>
   fst (generate (failing_remote e) llm calls mid msgs t m)
     = Inl (RuntimeError (''Error generating from '' @ mid @ '': '' @ e))"
  by (cases "the (clients llm mid)")
     (auto simp: generate_def failing_remote_def openai_branch_def ollama_branch_def Let_def
        chat_completions_create_def create_attempts_retryable)

lemma example_registered:
  "clients example_llm_client ''gpt-4.1-api'' \<noteq> None"
  "clients example_llm_client ''deepseek-api'' \<noteq> None"
  "clients example_llm_client ''ollama-local'' \<noteq> None"
  by (simp_all add: example_llm_client_def)

text \<open>
  C10. For a registered model, the one transport call that \<open>generate\<close> makes carries the
  override where one is given and the configured default where the override is \<open>None\<close>,
  for the temperature and for the token limit alike; an override of \<open>0\<close> is a given
  override and goes to the backend as \<open>0\<close>.
\<close>

theorem generate_default_iff_None:
  assumes "clients self mid = Some ci"
  shows "snd (generate rem self calls mid msgs t m)
           = calls @ [last (snd (generate rem self calls mid msgs t m))]
       \<and> call_temperature (last (snd (generate rem self calls mid msgs t m)))
           = (case t of None \<Rightarrow> cfg_temperature (config ci) | Some t' \<Rightarrow> t')
       \<and> call_max_tokens (last (snd (generate rem self calls mid msgs t m)))
           = (case m of None \<Rightarrow> cfg_max_tokens (config ci) | Some m' \<Rightarrow> m')"
  using assms by (simp add: generate_log try_generate_call split: option.splits)

theorem generate_default_iff_None_witness:
  "call_temperature (last (snd (generate (canned_remote (PStr ''hi'')) example_llm_client []
      ''ollama-local'' [] (Some 0) (Some 0)))) = 0
   \<and> call_max_tokens (last (snd (generate (canned_remote (PStr ''hi'')) example_llm_client []
      ''ollama-local'' [] (Some 0) (Some 0)))) = 0
   \<and> call_temperature (last (snd (generate (canned_remote (PStr ''hi'')) example_llm_client []
      ''gpt-4.1-api'' [] None None))) = 7 / 10
   \<and> call_max_tokens (last (snd (generate (canned_remote (PStr ''hi'')) example_llm_client []
      ''gpt-4.1-api'' [] None None))) = 512"
  using
    generate_default_iff_None [of example_llm_client "''ollama-local''"
      "Ollama ''http://localhost:11434'' example_config" "canned_remote (PStr ''hi'')" "[]" "[]"
      "Some 0" "Some 0"]
    generate_default_iff_None [of example_llm_client "''gpt-4.1-api''"
      "OpenAI (OpenAI_client ''key2'' None) example_config"
      "canned_remote (PStr ''hi'')" "[]" "[]" None None]
  by (simp add: example_llm_client_def example_config_def)

text \<open>
  C4, as the code has it. For a registered model, \<open>generate\<close> itself invokes the
  transport once, whatever comes of it: it has no retry loop of its own. When that call
  raises, the status check raises, or the payload cannot be read, \<open>generate\<close> raises a
  \<open>RuntimeError\<close> whose text is \<open>Error generating from\<close>, the model identifier, and the
  text of the cause; otherwise \<open>generate\<close> returns. Inside the one call, at least one
  HTTP attempt is made and no more than the client allows: one for the Ollama backend,
  one more than the retries of the client for the two OpenAI kinds, which the source
  leaves at the library's default of two.
\<close>

theorem generate_transport_failure:
  assumes "clients self mid = Some ci"
  shows "snd (generate rem self calls mid msgs t m)
           = calls @ [last (snd (generate rem self calls mid msgs t m))]
       \<and> (case transport_failure rem (length calls)
                 (last (snd (generate rem self calls mid msgs t m))) of
            Some f \<Rightarrow>
              fst (generate rem self calls mid msgs t m)
                = Inl (RuntimeError (''Error generating from '' @ mid @ '': '' @ cause f))
          | None \<Rightarrow> (\<exists>text. fst (generate rem self calls mid msgs t m) = Inr text))
       \<and> 1 \<le> transport_attempts rem (length calls)
                 (last (snd (generate rem self calls mid msgs t m)))
       \<and> transport_attempts rem (length calls)
                 (last (snd (generate rem self calls mid msgs t m))) \<le> max_attempts ci"
proof -
  let ?temp = "case t of Some t' \<Rightarrow> t' | None \<Rightarrow> cfg_temperature (config ci)"
  let ?tok = "case m of Some m' \<Rightarrow> m' | None \<Rightarrow> cfg_max_tokens (config ci)"
  obtain r call where tg: "try_generate rem (length calls) ci msgs ?temp ?tok = (r, call)"
    by (cases "try_generate rem (length calls) ci msgs ?temp ?tok")
  have g: "generate rem self calls mid msgs t m =
     (case r of
        Inr text \<Rightarrow> (Inr text, calls @ [call])
      | Inl e \<Rightarrow>
          (Inl (RuntimeError (''Error generating from '' @ mid @ '': '' @ e)), calls @ [call]))"
    using assms tg by (simp add: generate_def Let_def split: sum.splits)
  have l: "last (snd (generate rem self calls mid msgs t m)) = call"
    by (simp add: g split: sum.splits)
  from try_generate_failure [OF tg] have a:
    "snd (generate rem self calls mid msgs t m)
           = calls @ [last (snd (generate rem self calls mid msgs t m))]
       \<and> (case transport_failure rem (length calls)
                 (last (snd (generate rem self calls mid msgs t m))) of
            Some f \<Rightarrow>
              fst (generate rem self calls mid msgs t m)
                = Inl (RuntimeError (''Error generating from '' @ mid @ '': '' @ cause f))
          | None \<Rightarrow> (\<exists>text. fst (generate rem self calls mid msgs t m) = Inr text))"
    by (auto simp: g split: option.splits sum.splits)
  from try_generate_attempts [of rem "length calls" ci msgs ?temp ?tok] tg
  have b: "1 \<le> transport_attempts rem (length calls) call
       \<and> transport_attempts rem (length calls) call \<le> max_attempts ci"
    by simp
  from a b show ?thesis unfolding l by blast
qed

lemma flaky_remote_create:
  "create_attempts (flaky_remote e reply) n cl kw 0 2 = (Inr \<lparr>choices = [reply]\<rparr>, 3)"
  by (simp add: flaky_remote_def numeral_2_eq_2 numeral_3_eq_3)

text \<open>
  A network that is down, an error status and an unreadable body, each on one call.
\<close>

theorem generate_transport_failure_witness:
  "fst (generate (failing_remote ''Connection error.'') example_llm_client [] ''deepseek-api''
          [] None None)
     = Inl (RuntimeError ''Error generating from deepseek-api: Connection error.'')
   \<and> length (snd (generate (failing_remote ''Connection error.'') example_llm_client []
          ''deepseek-api'' [] None None)) = 1
   \<and> transport_attempts (failing_remote ''Connection error.'') 0
        (last (snd (generate (failing_remote ''Connection error.'') example_llm_client []
          ''deepseek-api'' [] None None))) \<le> 3
   \<and> fst (generate (bad_status_remote ''500 Server Error'') example_llm_client []
            ''ollama-local'' [] None None)
     = Inl (RuntimeError ''Error generating from ollama-local: 500 Server Error'')
   \<and> transport_attempts (bad_status_remote ''500 Server Error'') 0
        (last (snd (generate (bad_status_remote ''500 Server Error'') example_llm_client []
            ''ollama-local'' [] None None))) = 1
   \<and> fst (generate (malformed_remote ''Expecting value'') example_llm_client []
            ''ollama-local'' [] None None)
     = Inl (RuntimeError ''Error generating from ollama-local: Expecting value'')
   \<and> length (snd (generate (malformed_remote ''Expecting value'') example_llm_client []
            ''ollama-local'' [] None None)) = 1"
  using
    generate_transport_failure [of example_llm_client "''deepseek-api''"
      "OpenAI_compatible (OpenAI_client ''key1'' (Some ''https://api.deepseek.com''))
         example_config"
      "failing_remote ''Connection error.''" "[]" "[]" None None]
    generate_transport_failure [of example_llm_client "''ollama-local''"
      "Ollama ''http://localhost:11434'' example_config"
      "bad_status_remote ''500 Server Error''" "[]" "[]" None None]
    generate_transport_failure [of example_llm_client "''ollama-local''"
      "Ollama ''http://localhost:11434'' example_config"
      "malformed_remote ''Expecting value''" "[]" "[]" None None]
  by (simp add: example_llm_client_def example_config_def generate_def failing_remote_def
        bad_status_remote_def malformed_remote_def openai_branch_def ollama_branch_def
        OpenAI_client_def chat_completions_create_def numeral_2_eq_2)

text \<open>
  C4, as the specification has it, fails twice. A backend of an OpenAI kind answers the
  first two HTTP attempts with status 500 and completes the third: \<open>generate\<close> logs one
  transport call, inside which three attempts were made, and returns the reply without
  reporting the failure. And an Ollama backend that answers with the JSON object \<open>{}\<close>,
  a payload without \<open>message\<close>, makes \<open>generate\<close> return the empty string without an
  error.
\<close>

theorem generate_transport_failure_counterexample:
  "openai_http (flaky_remote ''Error code: 500'' (PStr ''hi'')) 0 0 (OpenAI_client ''key2'' None)
       \<lparr>kw_model = ''chat'', kw_messages = [], kw_temperature = 7 / 10, kw_max_tokens = 512\<rparr>
     = Retryable ''Error code: 500''
   \<and> generate (flaky_remote ''Error code: 500'' (PStr ''hi'')) example_llm_client []
        ''gpt-4.1-api'' [] None None
     = (Inr (PStr ''hi''),
        [Chat_completions_create (OpenAI_client ''key2'' None)
           \<lparr>kw_model = ''chat'', kw_messages = [], kw_temperature = 7 / 10,
            kw_max_tokens = 512\<rparr>])
   \<and> transport_attempts (flaky_remote ''Error code: 500'' (PStr ''hi'')) 0
        (Chat_completions_create (OpenAI_client ''key2'' None)
           \<lparr>kw_model = ''chat'', kw_messages = [], kw_temperature = 7 / 10,
            kw_max_tokens = 512\<rparr>) = 3
   \<and> requests_post (flaky_remote ''Error code: 500'' (PStr ''hi'')) 0
        ''http://localhost:11434/api/chat''
        \<lparr>js_model = ''chat'', js_messages = [], js_stream = False,
         js_options = \<lparr>opt_temperature = 7 / 10, opt_num_predict = 512\<rparr>\<rparr>
     = Inr \<lparr>raise_for_status = None, resp_json = Inr (Object None)\<rparr>
   \<and> fst (generate (flaky_remote ''Error code: 500'' (PStr ''hi'')) example_llm_client []
        ''ollama-local'' [] None None) = Inr (PStr [])"
  by (simp add: example_llm_client_def example_config_def generate_def openai_branch_def
        ollama_branch_def OpenAI_client_def chat_completions_create_def flaky_remote_create)
     (simp add: flaky_remote_def)

lemma test_connection_result:
  "fst (test_connection rem self calls mid) =
     (case fst (generate rem self calls mid [\<lparr>role = ''user'', content = PStr ''Say hi''\<rparr>]
                 None (Some 50)) of
        Inr response \<Rightarrow> response \<noteq> PNone
      | Inl e \<Rightarrow> False)"
  by (simp add: test_connection_def split: prod.splits sum.splits)

text \<open>
  C3, as the code has it. \<open>test_connection\<close> returns true exactly when \<open>generate\<close>
  returns any value other than \<open>None\<close>, the empty string included; it returns false
  when \<open>generate\<close> raises and also when \<open>generate\<close> returns \<open>None\<close>.
\<close>

theorem test_connection_iff:
  "fst (test_connection rem self calls mid) =
     (case fst (generate rem self calls mid [\<lparr>role = ''user'', content = PStr ''Say hi''\<rparr>]
                 None (Some 50)) of
        Inr response \<Rightarrow> response \<noteq> PNone
      | Inl e \<Rightarrow> False)"
  by (simp add: test_connection_def split: prod.splits sum.splits)

text \<open>
  C3, as the specification has it, fails: a completion whose content is \<open>None\<close> makes
  \<open>generate\<close> return \<open>None\<close> without raising, and \<open>test_connection\<close> answers false.
\<close>

theorem test_connection_None_counterexample:
  "fst (generate (canned_remote PNone) example_llm_client [] ''gpt-4.1-api''
          [\<lparr>role = ''user'', content = PStr ''Say hi''\<rparr>] None (Some 50)) = Inr PNone
   \<and> \<not> fst (test_connection (canned_remote PNone) example_llm_client [] ''gpt-4.1-api'')"
  by (simp add: test_connection_result canned_remote_generate example_registered)

text \<open>
  An empty string and the number \<open>5\<close> as content are both answered with true; a raising
  transport with false.
\<close>

lemma test_connection_examples:
  "fst (test_connection (canned_remote (PStr [])) example_llm_client [] ''ollama-local'')"
  "fst (test_connection (canned_remote (PInt 5)) example_llm_client [] ''ollama-local'')"
  "\<not> fst (test_connection (failing_remote ''timed out'') example_llm_client [] ''ollama-local'')"
  by (simp_all add: test_connection_result canned_remote_generate failing_remote_generate
        example_registered)


section \<open>The agents\<close>

text \<open>
  What \<open>respond\<close> comes to, for either agent: the incoming message is appended, the
  gateway is called with the system message and the history, and the reply, if there
  is one, is appended.
\<close>

lemma patient_respond_eq:
  "patient_respond rem calls self X =
     (let incoming = \<lparr>role = ''user'', content = PStr (''Doctor: '' @ py_str X)\<rparr>;
          g = generate rem (client self) calls (model_id self)
                (\<lparr>role = ''system'', content = PStr (system_prompt self)\<rparr>
                 # conversation_history self @ [incoming]) None None
      in (fst g,
          self\<lparr>conversation_history := conversation_history self @ [incoming]
                  @ (case fst g of Inl e \<Rightarrow> [] | Inr reply \<Rightarrow> [\<lparr>role = ''assistant'', content = reply\<rparr>])\<rparr>,
          snd g))"
  by (simp add: patient_respond_def Let_def split: prod.splits sum.splits)

lemma doctor_respond_eq:
  "doctor_respond rem calls self X t m =
     (let incoming = \<lparr>role = ''user'', content = PStr (''Patient: '' @ py_str X)\<rparr>;
          g = generate rem (client self) calls (model_id self)
                (\<lparr>role = ''system'', content = PStr (system_prompt self @ closing_context t m)\<rparr>
                 # conversation_history self @ [incoming]) None None
      in (fst g,
          self\<lparr>conversation_history := conversation_history self @ [incoming]
                  @ (case fst g of Inl e \<Rightarrow> [] | Inr reply \<Rightarrow> [\<lparr>role = ''assistant'', content = reply\<rparr>])\<rparr>,
          snd g))"
  by (simp add: doctor_respond_def doctor_messages_def Let_def split: prod.splits sum.splits)

lemma generate_call_messages:
  "clients self mid \<noteq> None \<Longrightarrow>
   call_messages (last (snd (generate rem self calls mid msgs t m))) = msgs"
  by (auto simp: generate_log try_generate_call)

lemma example_agents:
  "client example_patient = example_llm_client" "model_id example_patient = ''deepseek-api''"
  "conversation_history example_patient = []"
  "client example_doctor = example_llm_client" "model_id example_doctor = ''gpt-4.1-api''"
  "conversation_history example_doctor = []"
  by (simp_all add: example_patient_def example_doctor_def patient_attributes_def
        DoctorAgent_init_def Let_def)

lemma echo_remote_generate:
  "clients llm mid \<noteq> None \<Longrightarrow>
   fst (generate echo_remote llm calls mid (msg # msgs) t m) = Inr (content msg)"
  by (cases "the (clients llm mid)")
     (auto simp: generate_def echo_remote_def openai_branch_def ollama_branch_def Let_def
        chat_completions_create_def create_attempts_completed)

text \<open>
  C1, as the code has it. The result of \<open>respond\<close> is the result of its gateway call,
  so a failure of that call reaches the caller unchanged. After such a failure no reply
  has been appended, but the incoming message has: the history is the one before the
  call followed by exactly one \<open>user\<close> entry, the incoming message under its speaker
  prefix. This holds for the patient and for the doctor.
\<close>

theorem respond_failure_keeps_incoming:
  "fst (patient_respond rem calls p X)
     = fst (generate rem (client p) calls (model_id p)
              (\<lparr>role = ''system'', content = PStr (system_prompt p)\<rparr> # conversation_history p
               @ [\<lparr>role = ''user'', content = PStr (''Doctor: '' @ py_str X)\<rparr>]) None None)
   \<and> (fst (patient_respond rem calls p X) = Inl e \<longrightarrow>
      conversation_history (fst (snd (patient_respond rem calls p X)))
        = conversation_history p @ [\<lparr>role = ''user'', content = PStr (''Doctor: '' @ py_str X)\<rparr>])
   \<and> fst (doctor_respond rem calls d Y t m)
     = fst (generate rem (client d) calls (model_id d)
              (\<lparr>role = ''system'', content = PStr (system_prompt d @ closing_context t m)\<rparr>
               # conversation_history d
               @ [\<lparr>role = ''user'', content = PStr (''Patient: '' @ py_str Y)\<rparr>]) None None)
   \<and> (fst (doctor_respond rem calls d Y t m) = Inl e' \<longrightarrow>
      conversation_history (fst (snd (doctor_respond rem calls d Y t m)))
        = conversation_history d @ [\<lparr>role = ''user'', content = PStr (''Patient: '' @ py_str Y)\<rparr>])"
  by (simp add: patient_respond_eq doctor_respond_eq Let_def)

theorem respond_failure_keeps_incoming_witness:
  "conversation_history (fst (snd (patient_respond (failing_remote ''timed out'') [] example_patient
       (PStr ''Hello''))))
     = [\<lparr>role = ''user'', content = PStr ''Doctor: Hello''\<rparr>]
   \<and> conversation_history (fst (snd (doctor_respond (failing_remote ''timed out'') [] example_doctor
       (PStr ''It hurts'') 1 5)))
     = [\<lparr>role = ''user'', content = PStr ''Patient: It hurts''\<rparr>]"
  using respond_failure_keeps_incoming [where rem = "failing_remote ''timed out''" and calls = "[]" and p = example_patient
      and X = "PStr ''Hello''" and e = "RuntimeError ''Error generating from deepseek-api: timed out''"
      and d = example_doctor and Y = "PStr ''It hurts''" and t = 1 and m = 5
      and e' = "RuntimeError ''Error generating from gpt-4.1-api: timed out''"]
  by (simp add: example_agents failing_remote_generate example_registered)

text \<open>
  C1, as the specification has it, fails: with a backend whose transport raises,
  \<open>respond\<close> raises and the history, empty before the call, holds the incoming message
  after it, for the patient and for the doctor.
\<close>

theorem respond_failure_counterexample:
  "fst (patient_respond (failing_remote ''timed out'') [] example_patient (PStr ''Hello''))
     = Inl (RuntimeError ''Error generating from deepseek-api: timed out'')
   \<and> conversation_history example_patient = []
   \<and> conversation_history (fst (snd (patient_respond (failing_remote ''timed out'') [] example_patient
       (PStr ''Hello''))))
     = [\<lparr>role = ''user'', content = PStr ''Doctor: Hello''\<rparr>]
   \<and> conversation_history (fst (snd (patient_respond (failing_remote ''timed out'') [] example_patient
       (PStr ''Hello''))))
     \<noteq> conversation_history example_patient
   \<and> fst (doctor_respond (failing_remote ''timed out'') [] example_doctor (PStr ''It hurts'') 1 5)
     = Inl (RuntimeError ''Error generating from gpt-4.1-api: timed out'')
   \<and> conversation_history (fst (snd (doctor_respond (failing_remote ''timed out'') [] example_doctor
       (PStr ''It hurts'') 1 5)))
     \<noteq> conversation_history example_doctor"
  by (simp add: patient_respond_eq doctor_respond_eq Let_def example_agents failing_remote_generate
        example_registered)

text \<open>
  C6, with the proviso it needs. A call of the doctor's \<open>respond\<close> hands the gateway a
  system message that is the cached prompt followed by the closing context: the addendum
  when \<open>turn_number \<ge> max_turns - 2\<close>, nothing when \<open>turn_number < max_turns - 2\<close>; for a
  registered model this is the system message of the transport call made. The code
  itself does not persist the addendum: after the call the cached prompt is what it was,
  and the history is the history before, followed by the patient's turn and, if the call
  succeeded, the reply as the backend gave it. So an entry of the history after the call
  holds the addendum text exactly when an entry before the call, the patient's turn or
  the backend's reply holds it; in particular none does when these are free of it.
\<close>

theorem doctor_respond_closing_context:
  "(case doctor_respond rem calls self X t m of
      (r, self', calls') \<Rightarrow>
        (r, calls') = generate rem (client self) calls (model_id self)
           (\<lparr>role = ''system'', content = PStr (system_prompt self @ closing_context t m)\<rparr>
            # conversation_history self @ [\<lparr>role = ''user'', content = PStr (''Patient: '' @ py_str X)\<rparr>])
           None None
      \<and> (t \<ge> m - 2 \<longrightarrow> closing_context t m = addendum t m)
      \<and> (t < m - 2 \<longrightarrow> closing_context t m = [])
      \<and> (clients (client self) (model_id self) \<noteq> None \<longrightarrow>
           hd (call_messages (last calls'))
             = \<lparr>role = ''system'', content = PStr (system_prompt self @ closing_context t m)\<rparr>)
      \<and> system_prompt self' = system_prompt self
      \<and> conversation_history self'
          = conversation_history self @ [\<lparr>role = ''user'', content = PStr (''Patient: '' @ py_str X)\<rparr>]
            @ (case r of Inl e \<Rightarrow> [] | Inr reply \<Rightarrow> [\<lparr>role = ''assistant'', content = reply\<rparr>])
      \<and> ((\<exists>entry \<in> set (conversation_history self'). mentions (addendum t m) entry)
          \<longleftrightarrow> (\<exists>entry \<in> set (conversation_history self). mentions (addendum t m) entry)
               \<or> sublist (addendum t m) (''Patient: '' @ py_str X)
               \<or> (\<exists>reply. r = Inr reply \<and> sublist (addendum t m) (py_str reply)))
      \<and> ((\<forall>entry \<in> set (conversation_history self). \<not> mentions (addendum t m) entry)
           \<and> \<not> sublist (addendum t m) (''Patient: '' @ py_str X)
           \<and> (\<forall>reply. r = Inr reply \<longrightarrow> \<not> sublist (addendum t m) (py_str reply))
          \<longrightarrow> (\<forall>entry \<in> set (conversation_history self'). \<not> mentions (addendum t m) entry)))"
  by (auto simp: doctor_respond_eq Let_def closing_context_def generate_call_messages mentions_def
           split: sum.splits)

lemma addendum_4_5:
  "addendum 4 5 = ''\<newline>\<newline>[You are near the end of the interview (turn 4/5). Start summarizing and explaining next steps.]''"
  by code_simp

lemma no_addendum_4_5:
  "\<not> sublist (addendum 4 5) ''Patient: It hurts''" "\<not> sublist (addendum 4 5) ''I see''"
  by code_simp+

theorem doctor_respond_closing_context_witness:
  "fst (doctor_respond (canned_remote (PStr ''I see'')) [] example_doctor (PStr ''It hurts'') 4 5)
     = Inr (PStr ''I see'')
   \<and> hd (call_messages (last (snd (snd
         (doctor_respond (canned_remote (PStr ''I see'')) [] example_doctor (PStr ''It hurts'') 4 5)))))
     = \<lparr>role = ''system'',
        content = PStr (system_prompt example_doctor
          @ ''\<newline>\<newline>[You are near the end of the interview (turn 4/5). Start summarizing and explaining next steps.]'')\<rparr>
   \<and> system_prompt (fst (snd
         (doctor_respond (canned_remote (PStr ''I see'')) [] example_doctor (PStr ''It hurts'') 4 5)))
     = system_prompt example_doctor
   \<and> conversation_history (fst (snd
         (doctor_respond (canned_remote (PStr ''I see'')) [] example_doctor (PStr ''It hurts'') 4 5)))
     = [\<lparr>role = ''user'', content = PStr ''Patient: It hurts''\<rparr>,
        \<lparr>role = ''assistant'', content = PStr ''I see''\<rparr>]
   \<and> list_all (\<lambda>entry. \<not> mentions (addendum 4 5) entry)
        (conversation_history (fst (snd
          (doctor_respond (canned_remote (PStr ''I see'')) [] example_doctor (PStr ''It hurts'') 4 5))))
   \<and> hd (call_messages (last (snd (snd
         (doctor_respond (canned_remote (PStr ''I see'')) [] example_doctor (PStr ''It hurts'') 1 5)))))
     = \<lparr>role = ''system'', content = PStr (system_prompt example_doctor)\<rparr>"
proof -
  let ?R = "canned_remote (PStr ''I see'')"
  obtain r self' calls' where
    near: "doctor_respond ?R [] example_doctor (PStr ''It hurts'') 4 5 = (r, self', calls')"
    by (cases "doctor_respond ?R [] example_doctor (PStr ''It hurts'') 4 5")
  obtain r2 self2 calls2 where
    early: "doctor_respond ?R [] example_doctor (PStr ''It hurts'') 1 5 = (r2, self2, calls2)"
    by (cases "doctor_respond ?R [] example_doctor (PStr ''It hurts'') 1 5")
  have reg: "clients (client example_doctor) (model_id example_doctor) \<noteq> None"
    by (simp add: example_agents example_registered)
  have r: "r = Inr (PStr ''I see'')"
    using near reg by (simp add: doctor_respond_eq Let_def canned_remote_generate)
  have clean: "\<not> sublist (addendum 4 5) (''Patient: '' @ py_str (PStr ''It hurts''))"
    "\<not> sublist (addendum 4 5) (py_str (PStr ''I see''))"
    by (simp_all add: no_addendum_4_5)
  note n = doctor_respond_closing_context [where rem = ?R and calls = "[]" and self = example_doctor
              and X = "PStr ''It hurts''" and t = 4 and m = 5, unfolded near prod.case]
  note e = doctor_respond_closing_context [where rem = ?R and calls = "[]" and self = example_doctor
              and X = "PStr ''It hurts''" and t = 1 and m = 5, unfolded early prod.case]
  have "\<forall>entry \<in> set (conversation_history self'). \<not> mentions (addendum 4 5) entry"
    using n clean r by (simp add: example_agents)
  then have "list_all (\<lambda>entry. \<not> mentions (addendum 4 5) entry) (conversation_history self')"
    by (simp add: list_all_iff)
  moreover have "hd (call_messages (last calls'))
     = \<lparr>role = ''system'', content = PStr (system_prompt example_doctor @ addendum 4 5)\<rparr>"
    using n reg by simp
  moreover have "hd (call_messages (last calls2))
     = \<lparr>role = ''system'', content = PStr (system_prompt example_doctor)\<rparr>"
    using e reg by simp
  moreover have "system_prompt self' = system_prompt example_doctor"
    using n by simp
  moreover have "conversation_history self'
     = [\<lparr>role = ''user'', content = PStr ''Patient: It hurts''\<rparr>,
        \<lparr>role = ''assistant'', content = PStr ''I see''\<rparr>]"
    using n r by (simp add: example_agents)
  ultimately show ?thesis
    by (simp only: near early r fst_conv snd_conv addendum_4_5 [symmetric])
qed

text \<open>
  C6, as the specification has it, fails: the code does not keep the addendum out of
  the history when the backend's reply holds it. A backend that echoes the system
  message it was sent, asked at turn 4 of 5 with an empty history and a patient's turn
  free of the addendum, returns the cached prompt followed by the addendum, and
  \<open>respond\<close> appends this reply: the last entry of the history holds the addendum text.
\<close>

theorem doctor_respond_echo_counterexample:
  "conversation_history example_doctor = []
   \<and> \<not> sublist (addendum 4 5) ''Patient: It hurts''
   \<and> fst (doctor_respond echo_remote [] example_doctor (PStr ''It hurts'') 4 5)
       = Inr (PStr (system_prompt example_doctor @ addendum 4 5))
   \<and> conversation_history (fst (snd (doctor_respond echo_remote [] example_doctor (PStr ''It hurts'') 4 5)))
       = [\<lparr>role = ''user'', content = PStr ''Patient: It hurts''\<rparr>,
          \<lparr>role = ''assistant'', content = PStr (system_prompt example_doctor @ addendum 4 5)\<rparr>]
   \<and> mentions (addendum 4 5)
       (last (conversation_history
          (fst (snd (doctor_respond echo_remote [] example_doctor (PStr ''It hurts'') 4 5)))))"
proof -
  have reg: "clients (client example_doctor) (model_id example_doctor) \<noteq> None"
    by (simp add: example_agents example_registered)
  have g: "fst (generate echo_remote (client example_doctor) [] (model_id example_doctor)
              (\<lparr>role = ''system'', content = PStr (system_prompt example_doctor @ closing_context 4 5)\<rparr>
               # conversation_history example_doctor
                 @ [\<lparr>role = ''user'', content = PStr (''Patient: '' @ py_str (PStr ''It hurts''))\<rparr>])
              None None)
           = Inr (PStr (system_prompt example_doctor @ addendum 4 5))"
    using reg by (simp add: echo_remote_generate closing_context_def)
  have s: "sublist (addendum 4 5) (system_prompt example_doctor @ addendum 4 5)"
    by (rule suffix_imp_sublist) (simp add: suffix_def)
  show ?thesis
    unfolding doctor_respond_eq Let_def g
    using s by (simp add: example_agents(6) mentions_def no_addendum_4_5)
qed


section \<open>The orchestrator\<close>

text \<open>
  The patient's constructor returns the agent exactly when the four persona-axis values
  of the profile can be hashed; otherwise it raises the \<open>TypeError\<close> of the first
  dictionary lookup whose key cannot be.
\<close>

lemma PatientAgent_init_hashable:
  "hashable_axes p \<Longrightarrow>
   PatientAgent_init rng p mid llm
     = Inr ((patient_attributes p mid llm)
              \<lparr>system_prompt := patient_render_prompt rng (patient_attributes p mid llm)\<rparr>)"
  by (simp add: PatientAgent_init_def patient_build_system_prompt_def hash_error_def
        hashable_axes_def patient_attributes_def Let_def)

lemma PatientAgent_init_unhashable:
  "\<not> hashable_axes p \<Longrightarrow>
   \<exists>tn. PatientAgent_init rng p mid llm
           = Inl (TypeError (''unhashable type: '' @ [CHR 0x27] @ tn @ [CHR 0x27]))"
  by (auto simp: PatientAgent_init_def patient_build_system_prompt_def hash_error_def
        hashable_axes_def patient_attributes_def Let_def split: option.splits)








lemma example_hashable:
  "hashable_axes example_profile" "hashable_axes odd_profile"
  "\<not> hashable_axes list_profile" "\<not> hashable_axes dict_profile"
  by (simp_all add: hashable_axes_def example_profile_def odd_profile_def list_profile_def
        dict_profile_def profile_get_def)








section \<open>The patient's instruction\<close>

subsection \<open>The vocabulary sample\<close>











subsection \<open>The four persona axes\<close>

lemma unknown_key_default:
  "v \<notin> {PStr ''A'', PStr ''B'', PStr ''C''} \<Longrightarrow> dict_get cefr_instructions v dflt = dflt"
  "v \<notin> {PStr ''plain'', PStr ''distrust''} \<Longrightarrow> dict_get personality_instructions v dflt = dflt"
  "v \<notin> {PStr ''low'', PStr ''medium'', PStr ''high''} \<Longrightarrow> dict_get recall_instructions v dflt = dflt"
  "v \<notin> {PStr ''normal'', PStr ''confused''} \<Longrightarrow> dict_get dazed_instructions v dflt = dflt"
  by (cases v; simp add: cefr_instructions_def personality_instructions_def
        recall_instructions_def dazed_instructions_def)+

lemma sublist_mid: "ys = ps @ xs @ ss \<Longrightarrow> sublist xs ys"
  by (simp add: sublist_appendI)

lemma sublist_block:
  assumes "sublist (h1 @ v @ h2 @ b @ t) ys"
  shows "sublist b ys"
proof -
  have "sublist b ((h1 @ v @ h2) @ b @ t)" by (rule sublist_appendI)
  then have "sublist b (h1 @ v @ h2 @ b @ t)" by simp
  then show ?thesis using assms by (rule sublist_order.order_trans)
qed

text \<open>
  C9, as the code has it. Constructing a patient agent succeeds exactly when the four
  persona-axis values of the profile can be hashed; a value that cannot be (a JSON array
  or object) makes the constructor raise the \<open>TypeError\<close> of the dictionary lookup. When
  it succeeds, the axis attributes are the profile's values, and when the value of an
  axis is none of the values known for that axis, the rendered instruction contains the
  default block of the axis under the heading of the axis: the tier-B block for the
  language level, the \<open>plain\<close> block for the personality, the \<open>medium\<close> block for recall,
  and the \<open>normal\<close> block for mental clarity.
\<close>

theorem unknown_axis_renders_default:
  "case PatientAgent_init rng p mid llm of
     Inl e \<Rightarrow>
       \<not> hashable_axes p
       \<and> (\<exists>tn. e = TypeError (''unhashable type: '' @ [CHR 0x27] @ tn @ [CHR 0x27]))
   | Inr self \<Rightarrow>
       hashable_axes p
     \<and> cefr_level self = profile_get p ''cefr'' (PStr ''B'')
     \<and> personality self = profile_get p ''personality'' (PStr ''plain'')
     \<and> recall_level self = profile_get p ''recall_level'' (PStr ''medium'')
     \<and> dazed_level self = profile_get p ''dazed_level'' (PStr ''normal'')
     \<and> (cefr_level self \<notin> {PStr ''A'', PStr ''B'', PStr ''C''} \<longrightarrow>
          sublist cefr_instructions_B (system_prompt self)
          \<and> sublist (''**Language Level (CEFR '' @ py_str (cefr_level self) @ ''):**\<newline>''
                      @ cefr_instructions_B @ ''\<newline>'') (system_prompt self))
     \<and> (personality self \<notin> {PStr ''plain'', PStr ''distrust''} \<longrightarrow>
          sublist personality_instructions_plain (system_prompt self)
          \<and> sublist (''**Personality ('' @ py_str (personality self) @ ''):**\<newline>''
                      @ personality_instructions_plain @ ''\<newline>'') (system_prompt self))
     \<and> (recall_level self \<notin> {PStr ''low'', PStr ''medium'', PStr ''high''} \<longrightarrow>
          sublist recall_instructions_medium (system_prompt self)
          \<and> sublist (''**Memory/Recall ('' @ py_str (recall_level self) @ ''):**\<newline>''
                      @ recall_instructions_medium @ ''\<newline>'') (system_prompt self))
     \<and> (dazed_level self \<notin> {PStr ''normal'', PStr ''confused''} \<longrightarrow>
          sublist dazed_instructions_normal (system_prompt self)
          \<and> sublist (''**Mental Clarity ('' @ py_str (dazed_level self) @ ''):**\<newline>''
                      @ dazed_instructions_normal @ ''\<newline>'') (system_prompt self))"
proof (cases "hashable_axes p")
  case False
  from PatientAgent_init_unhashable [OF False, of rng mid llm]
  obtain tn where "PatientAgent_init rng p mid llm
           = Inl (TypeError (''unhashable type: '' @ [CHR 0x27] @ tn @ [CHR 0x27]))"
    by (elim exE) (rule that)
  with False show ?thesis by simp
next
  case True
  define self0 where "self0 = patient_attributes p mid llm"
  define self where "self = self0\<lparr>system_prompt := patient_render_prompt rng self0\<rparr>"
  have init: "PatientAgent_init rng p mid llm = Inr self"
    unfolding self_def self0_def using True by (rule PatientAgent_init_hashable)
  have fields: "cefr_level self = profile_get p ''cefr'' (PStr ''B'')"
    "personality self = profile_get p ''personality'' (PStr ''plain'')"
    "recall_level self = profile_get p ''recall_level'' (PStr ''medium'')"
    "dazed_level self = profile_get p ''dazed_level'' (PStr ''normal'')"
    "cefr_level self0 = cefr_level self" "personality self0 = personality self"
    "recall_level self0 = recall_level self" "dazed_level self0 = dazed_level self"
    by (simp_all add: self_def) (simp_all add: self0_def patient_attributes_def)
  have prompt: "system_prompt self =
     patient_profile_section self0 @ patient_language_paragraph self0
     @ patient_vocabulary_paragraph rng self0 @ patient_personality_paragraph self0
     @ patient_recall_paragraph self0 @ patient_clarity_paragraph self0 @ patient_rules_section"
    by (simp add: self_def patient_render_prompt_def)
  have lang: "sublist (''**Language Level (CEFR '' @ py_str (cefr_level self) @ ''):**\<newline>''
                    @ cefr_instructions_B @ ''\<newline>'') (system_prompt self)"
    if "cefr_level self \<notin> {PStr ''A'', PStr ''B'', PStr ''C''}"
    by (rule sublist_mid [where ps = "patient_profile_section self0"
          and ss = "''\<newline>'' @ patient_vocabulary_paragraph rng self0
            @ patient_personality_paragraph self0 @ patient_recall_paragraph self0
            @ patient_clarity_paragraph self0 @ patient_rules_section"])
       (simp add: prompt patient_language_paragraph_def fields(5-8) unknown_key_default(1) [OF that])
  have pers: "sublist (''**Personality ('' @ py_str (personality self) @ ''):**\<newline>''
                    @ personality_instructions_plain @ ''\<newline>'') (system_prompt self)"
    if "personality self \<notin> {PStr ''plain'', PStr ''distrust''}"
    by (rule sublist_mid [where ps = "patient_profile_section self0 @ patient_language_paragraph self0
            @ patient_vocabulary_paragraph rng self0"
          and ss = "''\<newline>'' @ patient_recall_paragraph self0
            @ patient_clarity_paragraph self0 @ patient_rules_section"])
       (simp add: prompt patient_personality_paragraph_def fields(5-8) unknown_key_default(2) [OF that])
  have rec: "sublist (''**Memory/Recall ('' @ py_str (recall_level self) @ ''):**\<newline>''
                    @ recall_instructions_medium @ ''\<newline>'') (system_prompt self)"
    if "recall_level self \<notin> {PStr ''low'', PStr ''medium'', PStr ''high''}"
    by (rule sublist_mid [where ps = "patient_profile_section self0 @ patient_language_paragraph self0
            @ patient_vocabulary_paragraph rng self0 @ patient_personality_paragraph self0"
          and ss = "''\<newline>'' @ patient_clarity_paragraph self0 @ patient_rules_section"])
       (simp add: prompt patient_recall_paragraph_def fields(5-8) unknown_key_default(3) [OF that])
  have clar: "sublist (''**Mental Clarity ('' @ py_str (dazed_level self) @ ''):**\<newline>''
                    @ dazed_instructions_normal @ ''\<newline>'') (system_prompt self)"
    if "dazed_level self \<notin> {PStr ''normal'', PStr ''confused''}"
    by (rule sublist_mid [where ps = "patient_profile_section self0 @ patient_language_paragraph self0
            @ patient_vocabulary_paragraph rng self0 @ patient_personality_paragraph self0
            @ patient_recall_paragraph self0"
          and ss = "''\<newline>'' @ patient_rules_section"])
       (simp add: prompt patient_clarity_paragraph_def fields(5-8) unknown_key_default(4) [OF that])
  show ?thesis
    unfolding init sum.case
    using True fields(1-4) lang pers rec clar
      sublist_block [OF lang] sublist_block [OF pers] sublist_block [OF rec] sublist_block [OF clar]
    by (intro conjI impI) assumption+
qed

lemma str_int_3: "str_int 3 = ''3''" by code_simp

theorem unknown_axis_renders_default_witness:
  "case PatientAgent_init (\<lambda>i. 0) odd_profile ''deepseek-api'' example_llm_client of
     Inl e \<Rightarrow> False
   | Inr self \<Rightarrow>
       cefr_level self = PStr ''D''
     \<and> sublist cefr_instructions_B (system_prompt self)
     \<and> sublist (''**Language Level (CEFR D):**\<newline>'' @ cefr_instructions_B @ ''\<newline>'')
          (system_prompt self)
     \<and> personality self = PStr ''hostile''
     \<and> sublist (''**Personality (hostile):**\<newline>'' @ personality_instructions_plain @ ''\<newline>'')
          (system_prompt self)
     \<and> recall_level self = PInt 3
     \<and> sublist (''**Memory/Recall (3):**\<newline>'' @ recall_instructions_medium @ ''\<newline>'')
          (system_prompt self)
     \<and> dazed_level self = PNone
     \<and> sublist (''**Mental Clarity (None):**\<newline>'' @ dazed_instructions_normal @ ''\<newline>'')
          (system_prompt self)"
proof -
  obtain self where
    init: "PatientAgent_init (\<lambda>i. 0) odd_profile ''deepseek-api'' example_llm_client = Inr self"
    using PatientAgent_init_hashable [OF example_hashable(2)] by simp
  note t = unknown_axis_renders_default [where rng = "\<lambda>i. 0" and p = odd_profile
      and mid = "''deepseek-api''" and llm = example_llm_client, unfolded init sum.case]
  have f: "cefr_level self = PStr ''D''" "personality self = PStr ''hostile''"
    "recall_level self = PInt 3" "dazed_level self = PNone"
    using t by (simp_all add: profile_get_def odd_profile_def)
  have u: "cefr_level self \<notin> {PStr ''A'', PStr ''B'', PStr ''C''}"
    "personality self \<notin> {PStr ''plain'', PStr ''distrust''}"
    "recall_level self \<notin> {PStr ''low'', PStr ''medium'', PStr ''high''}"
    "dazed_level self \<notin> {PStr ''normal'', PStr ''confused''}"
    by (simp_all add: f)
  from t u have
    "sublist cefr_instructions_B (system_prompt self)"
    "sublist (''**Language Level (CEFR '' @ py_str (cefr_level self) @ ''):**\<newline>''
                    @ cefr_instructions_B @ ''\<newline>'') (system_prompt self)"
    "sublist (''**Personality ('' @ py_str (personality self) @ ''):**\<newline>''
                    @ personality_instructions_plain @ ''\<newline>'') (system_prompt self)"
    "sublist (''**Memory/Recall ('' @ py_str (recall_level self) @ ''):**\<newline>''
                    @ recall_instructions_medium @ ''\<newline>'') (system_prompt self)"
    "sublist (''**Mental Clarity ('' @ py_str (dazed_level self) @ ''):**\<newline>''
                    @ dazed_instructions_normal @ ''\<newline>'') (system_prompt self)"
    by blast+
  then show ?thesis
    unfolding init sum.case by (simp add: f str_int_3)
qed

text \<open>
  C9, as the specification has it, fails: construction is not total. A profile whose
  language level is the JSON array \<open>['A']\<close>, or whose personality is the JSON object
  \<open>{'a': 1}\<close>, carries a value that is none of the known ones, and the constructor raises
  \<open>TypeError\<close> instead of rendering the default block.
\<close>

theorem unhashable_axis_counterexample:
  "profile_get list_profile ''cefr'' (PStr ''B'') \<notin> {PStr ''A'', PStr ''B'', PStr ''C''}
   \<and> PatientAgent_init first_draws list_profile ''deepseek-api'' example_llm_client
       = Inl (TypeError (''unhashable type: '' @ [CHR 0x27] @ ''list'' @ [CHR 0x27]))
   \<and> profile_get dict_profile ''personality'' (PStr ''plain'') \<notin> {PStr ''plain'', PStr ''distrust''}
   \<and> PatientAgent_init first_draws dict_profile ''deepseek-api'' example_llm_client
       = Inl (TypeError (''unhashable type: '' @ [CHR 0x27] @ ''dict'' @ [CHR 0x27]))"
  by (simp add: PatientAgent_init_def patient_build_system_prompt_def hash_error_def
        patient_attributes_def list_profile_def dict_profile_def profile_get_def Let_def)

section \<open>The interview ends on the turn count\<close>

text \<open>
  C8. \<open>should_end_interview(t, m)\<close> is true exactly when \<open>t \<ge> m\<close>, for all integers
  (the non-negative ones among them); at the boundary it is true for \<open>(5, 5)\<close> and
  false for \<open>(4, 5)\<close>.
\<close>

theorem should_end_interview_iff:
  "should_end_interview self t m = (t \<ge> m)
   \<and> should_end_interview self 5 5 \<and> \<not> should_end_interview self 4 5"
  by (simp add: should_end_interview_def)

end
